theory Spec2Isabelle
  imports Main
begin

section \<open>JavaScript values and strings\<close>

text \<open>
  The values that flow through the command callbacks of \<^verbatim>\<open>InspectHTTPDomain.js\<close>:
  \<^verbatim>\<open>undefined\<close>, \<^verbatim>\<open>null\<close>, booleans, numbers (only port numbers occur), strings,
  references to \<^verbatim>\<open>http.Server\<close> objects, members inherited from \<^verbatim>\<open>Object.prototype\<close>,
  and object literals as lists of properties in the order they are written.
\<close>

datatype jsval =
    Undefined
  | Null
  | Bool bool
  | Num nat
  | Str string
  | Ref nat
  | Builtin string
  | Obj "(string \<times> jsval) list"

text \<open>What \<^verbatim>\<open>if (v)\<close> tests.\<close>

fun truthy :: "jsval \<Rightarrow> bool" where
  "truthy Undefined = False"
| "truthy Null = False"
| "truthy (Bool b) = b"
| "truthy (Num n) = (n \<noteq> 0)"
| "truthy (Str s) = (s \<noteq> [])"
| "truthy (Ref h) = True"
| "truthy (Builtin n) = True"
| "truthy (Obj ps) = True"

text \<open>
  Reading a property \<^verbatim>\<open>v.name\<close> of a value that is not \<^verbatim>\<open>undefined\<close> or \<^verbatim>\<open>null\<close>: a
  property an object literal does not have reads as \<^verbatim>\<open>undefined\<close>; so do the properties
  \<^verbatim>\<open>address\<close> and \<^verbatim>\<open>server\<close> of the members of \<^verbatim>\<open>Object.prototype\<close>.
\<close>

fun get_field :: "jsval \<Rightarrow> string \<Rightarrow> jsval" where
  "get_field (Obj ps) name = (case map_of ps name of Some v \<Rightarrow> v | None \<Rightarrow> Undefined)"
| "get_field v name = Undefined"

text \<open>Reading an array element \<^verbatim>\<open>xs[i]\<close>: \<open>None\<close> is \<^verbatim>\<open>undefined\<close>, past the end.\<close>

definition js_index :: "'a list \<Rightarrow> nat \<Rightarrow> 'a option" where
  "js_index xs i = (if i < length xs then Some (xs ! i) else None)"

text \<open>
  \<^verbatim>\<open>s.split(sep)\<close> for a one-character separator: the pieces between the separators, the
  empty ones too; the empty string splits into one empty piece.
\<close>

fun js_split :: "char \<Rightarrow> string \<Rightarrow> string list" where
  "js_split sep [] = [[]]"
| "js_split sep (c # cs) =
     (if c = sep then [] # js_split sep cs
      else (case js_split sep cs of
              [] \<Rightarrow> [[c]]
            | w # ws \<Rightarrow> (c # w) # ws))"

section \<open>Registry keys\<close>

definition PATH_KEY_PREFIX :: string where
  "PATH_KEY_PREFIX = ''edge-code-inspect-''"

text \<open>
  \<^verbatim>\<open>(path && path[path.length - 1] === "/") ? path.slice(0, -1) : path\<close>: the empty string is
  falsy and is returned as it is; otherwise one trailing slash is cut.
\<close>

definition normalizeRootPath :: "string \<Rightarrow> string" where
  "normalizeRootPath path =
     (if path \<noteq> [] \<and> last path = CHR ''/'' then butlast path else path)"

definition getPathKey :: "string \<Rightarrow> string" where
  "getPathKey path = PATH_KEY_PREFIX @ normalizeRootPath path"

text \<open>
  The names every object inherits from \<^verbatim>\<open>Object.prototype\<close>: \<^verbatim>\<open>_servers\<close> is created as
  \<^verbatim>\<open>{}\<close>, so \<^verbatim>\<open>_servers[k]\<close> for one of these names is truthy although the table has no
  entry of its own for it.
\<close>

definition object_prototype_props :: "string list" where
  "object_prototype_props =
     [''constructor'', ''__proto__'', ''hasOwnProperty'', ''isPrototypeOf'',
      ''propertyIsEnumerable'', ''toLocaleString'', ''toString'', ''valueOf'',
      ''__defineGetter__'', ''__defineSetter__'', ''__lookupGetter__'',
      ''__lookupSetter__'']"

section \<open>Address resolution and the subnet filter\<close>

text \<open>One address of an interface, as \<^verbatim>\<open>os.networkInterfaces()\<close> lists it.\<close>

record addr_info =
  address :: string
  family :: string
  internal :: bool

type_synonym interfaces = "(string \<times> addr_info list) list"

text \<open>
  The test of \<^verbatim>\<open>getExternalAddresses\<close> on one address:
  \<^verbatim>\<open>addr.family === "IPv4" && !addr.internal\<close>, then
  \<^verbatim>\<open>octets[0] !== "169" && octets[1] !== "254"\<close> on \<^verbatim>\<open>addr.address.split(".")\<close>.
\<close>

definition isExternal :: "addr_info \<Rightarrow> bool" where
  "isExternal addr =
     (family addr = ''IPv4'' \<and> \<not> internal addr \<and>
      (let octets = js_split CHR ''.'' (address addr)
       in js_index octets 0 \<noteq> Some ''169'' \<and> js_index octets 1 \<noteq> Some ''254''))"

text \<open>
  The two nested \<^verbatim>\<open>forEach\<close> loops: the interfaces in the order of \<^verbatim>\<open>Object.keys\<close>, the
  addresses of each in their order, every address that passes pushed onto the result.
\<close>

definition getExternalAddresses :: "interfaces \<Rightarrow> string list" where
  "getExternalAddresses ifs =
     concat (map (\<lambda>(k, addrs). map address (filter isExternal addrs)) ifs)"

text \<open>
  A request as the filter reads it: \<^verbatim>\<open>request.connection.remoteAddress\<close>, \<open>None\<close> when it
  is \<^verbatim>\<open>undefined\<close>. The record is extensible: the rest of the request is for the later
  stages. A response: its status code, and the body \<^verbatim>\<open>end\<close> was called with, if it was.
\<close>

record request =
  remoteAddress :: "string option"

record response =
  statusCode :: nat
  ended :: "string option"

text \<open>
  What the filter does with a request: it calls \<^verbatim>\<open>next()\<close>, or it writes a line to the
  console and ends the response.
\<close>

datatype filter_outcome =
    CallNext
  | Rejected string response

definition rejectOffSubnetRequests ::
  "string \<Rightarrow> 'r request_scheme \<Rightarrow> response \<Rightarrow> filter_outcome" where
  "rejectOffSubnetRequests serverAddress req res =
     (let serverAddressOctets = js_split CHR ''.'' serverAddress;
          clientAddress = remoteAddress req
      in if (case clientAddress of
               None \<Rightarrow> False
             | Some c \<Rightarrow>
                 c \<noteq> [] \<and>
                 (let clientAddressOctets = js_split CHR ''.'' c
                  in js_index clientAddressOctets 0 = js_index serverAddressOctets 0 \<and>
                     js_index clientAddressOctets 1 = js_index serverAddressOctets 1 \<and>
                     js_index clientAddressOctets 2 = js_index serverAddressOctets 2))
         then CallNext
         else Rejected
                (''Rejecting off-subnet request from address: '' @
                   (case clientAddress of None \<Rightarrow> ''undefined'' | Some c \<Rightarrow> c))
                (res\<lparr>statusCode := 403, ended := Some ''Forbidden''\<rparr>))"

section \<open>The request pipeline\<close>

text \<open>
  The three middlewares the code installs. \<^verbatim>\<open>connect()\<close> starts with an empty stack and
  \<^verbatim>\<open>app.use\<close> pushes onto its end; a request runs through the stack from the front, each
  middleware either answering or calling \<^verbatim>\<open>next()\<close>.
\<close>

datatype middleware =
    RejectOffSubnet string
  | Static string
  | Limit string

definition connect :: "middleware list" where
  "connect = []"

definition app_use :: "middleware list \<Rightarrow> middleware \<Rightarrow> middleware list" where
  "app_use app m = app @ [m]"

text \<open>
  \<^verbatim>\<open>connect.static\<close> and \<^verbatim>\<open>connect.limit\<close> belong to the connect library, not to this
  program: they are parameters. Each gets its configuration (the root, the size) and
  the request, and answers (\<open>Some\<close>) or calls \<^verbatim>\<open>next()\<close> (\<open>None\<close>).
\<close>

record 'r handlers =
  serveStatic :: "string \<Rightarrow> 'r request_scheme \<Rightarrow> response \<Rightarrow> response option"
  limitBody :: "string \<Rightarrow> 'r request_scheme \<Rightarrow> response \<Rightarrow> response option"

fun run_middleware ::
  "'r handlers \<Rightarrow> middleware \<Rightarrow> 'r request_scheme \<Rightarrow> response \<Rightarrow> response option" where
  "run_middleware H (RejectOffSubnet a) req res =
     (case rejectOffSubnetRequests a req res of
        CallNext \<Rightarrow> None
      | Rejected line res' \<Rightarrow> Some res')"
| "run_middleware H (Static root) req res = serveStatic H root req res"
| "run_middleware H (Limit bytes) req res = limitBody H bytes req res"

text \<open>
  Running a request through a stack: the middlewares that ran, in order, and the
  response of the one that answered (\<open>None\<close> when every one called \<^verbatim>\<open>next()\<close>).
\<close>

fun app_handle ::
  "'r handlers \<Rightarrow> middleware list \<Rightarrow> 'r request_scheme \<Rightarrow> response \<Rightarrow>
   middleware list \<times> response option" where
  "app_handle H [] req res = ([], None)"
| "app_handle H (m # ms) req res =
     (case run_middleware H m req res of
        Some res' \<Rightarrow> ([m], Some res')
      | None \<Rightarrow> (case app_handle H ms req res of (visited, out) \<Rightarrow> (m # visited, out)))"

section \<open>Servers and the registry\<close>

text \<open>
  An \<^verbatim>\<open>http.Server\<close> object: the application it was created with, whether it is
  listening, and the port \<^verbatim>\<open>server.address().port\<close> reports.
\<close>

record http_server =
  stack :: "middleware list"
  listening :: bool
  port :: nat

text \<open>The calls that change something outside a function, in the order they are made.\<close>

datatype effect =
    ListenCall nat
  | ProbeCall string nat
  | StoreEntry string
  | DeleteEntry string
  | CloseCall nat

text \<open>
  The state of the module: the own properties of \<^verbatim>\<open>_servers\<close>, the server objects
  created so far (by reference), the next unused reference, and the effects so far.
\<close>

record state =
  servers :: "string \<rightharpoonup> jsval"
  heap :: "nat \<rightharpoonup> http_server"
  nextRef :: nat
  journal :: "effect list"

definition init_state :: state where
  "init_state = \<lparr>servers = Map.empty, heap = Map.empty, nextRef = 0, journal = []\<rparr>"

text \<open>
  What the surroundings decide during one command: the interfaces the operating system
  lists, the port it assigns to \<^verbatim>\<open>listen(0)\<close>, how the GET of \<^verbatim>\<open>requestRoot\<close> ends (a
  response, an \<^verbatim>\<open>error\<close> event, or neither: the request has no timeout), and whether the
  callback of \<^verbatim>\<open>server.close\<close> runs (it does once every connection has ended).
\<close>

datatype probe_outcome = ProbeResponse | ProbeError | ProbeNever

record env =
  networkInterfaces :: interfaces
  assignedPort :: nat
  probe :: probe_outcome
  closeCompletes :: bool

text \<open>
  How a command ends: its callback is called with these arguments, or never called, or
  the command throws.
\<close>

datatype completion =
    Called "jsval list"
  | Pending
  | Threw string

text \<open>A parameter the caller did not pass is \<^verbatim>\<open>undefined\<close>.\<close>

definition arg :: "jsval list \<Rightarrow> nat \<Rightarrow> jsval" where
  "arg args i = (if i < length args then args ! i else Undefined)"

text \<open>
  \<^verbatim>\<open>_servers[k]\<close>: the table's own property, else the member of \<^verbatim>\<open>Object.prototype\<close> of
  that name, else \<^verbatim>\<open>undefined\<close>.
\<close>

definition js_lookup :: "(string \<rightharpoonup> jsval) \<Rightarrow> string \<Rightarrow> jsval" where
  "js_lookup obj k =
     (case obj k of
        Some v \<Rightarrow> v
      | None \<Rightarrow> if k \<in> set object_prototype_props then Builtin k else Undefined)"

text \<open>\<^verbatim>\<open>server.close()\<close>: the server stops listening.\<close>

definition close_server :: "(nat \<rightharpoonup> http_server) \<Rightarrow> nat \<Rightarrow> (nat \<rightharpoonup> http_server)" where
  "close_server hp h =
     (case hp h of
        None \<Rightarrow> hp
      | Some s \<Rightarrow> hp(h \<mapsto> s\<lparr>listening := False\<rparr>))"

text \<open>
  \<^verbatim>\<open>_createServer\<close>: the completion holds the arguments of \<^verbatim>\<open>createCompleteCallback\<close>
  (error, server, address). What the connect library does inside \<^verbatim>\<open>connect.static\<close> is
  not part of it: the library refuses an empty root by throwing, and the paths here are
  root paths, which are not empty.
\<close>

definition createServer :: "env \<Rightarrow> string \<Rightarrow> state \<Rightarrow> completion \<times> state" where
  "createServer e path st =
     (let externalAddresses = getExternalAddresses (networkInterfaces e)
      in case externalAddresses of
           [] \<Rightarrow> (Called [Str ''Could not find an external IP address'', Null, Null], st)
         | host # rest \<Rightarrow>
             (let app = app_use (app_use (app_use connect (RejectOffSubnet host))
                                   (Static path)) (Limit ''1mb'');
                  h = nextRef st;
                  st1 = st\<lparr>heap := (heap st)(h \<mapsto>
                               \<lparr>stack = app, listening = True, port = assignedPort e\<rparr>),
                           nextRef := Suc h,
                           journal := journal st @ [ListenCall h, ProbeCall host (assignedPort e)]\<rparr>
              in case probe e of
                   ProbeError \<Rightarrow>
                     (Called [Str ''Could not GET root after launching server'', Null, Null], st1)
                 | ProbeResponse \<Rightarrow>
                     (Called [Null, Ref h,
                              Obj [(''address'', Str host), (''port'', Num (assignedPort e))]],
                      st1)
                 | ProbeNever \<Rightarrow> (Pending, st1)))"

text \<open>\<^verbatim>\<open>_cmdGetServer\<close>: the completion holds the arguments of \<^verbatim>\<open>cb\<close> (error, address).\<close>

definition cmdGetServer :: "env \<Rightarrow> string \<Rightarrow> state \<Rightarrow> completion \<times> state" where
  "cmdGetServer e path st =
     (let pathKey = getPathKey path;
          found = js_lookup (servers st) pathKey
      in if truthy found then (Called [Null, get_field found ''address''], st)
         else (case createServer e path st of
                 (Called args, st1) \<Rightarrow>
                   (let err = arg args 0; server = arg args 1; address = arg args 2
                    in if truthy err then (Called [err, Null], st1)
                       else (Called [Null, address],
                             st1\<lparr>servers := (servers st1)(pathKey \<mapsto>
                                    Obj [(''server'', server), (''address'', address)]),
                                 journal := journal st1 @ [StoreEntry pathKey]\<rparr>))
               | (Pending, st1) \<Rightarrow> (Pending, st1)
               | (Threw x, st1) \<Rightarrow> (Threw x, st1)))"

text \<open>
  \<^verbatim>\<open>_cmdCloseServer\<close>: the completion holds the arguments of \<^verbatim>\<open>cba\<close>. Calling
  \<^verbatim>\<open>close\<close> on a value that is not a server throws a TypeError.
\<close>

definition cmdCloseServer :: "env \<Rightarrow> string \<Rightarrow> state \<Rightarrow> completion \<times> state" where
  "cmdCloseServer e path st =
     (let pathKey = getPathKey path;
          found = js_lookup (servers st) pathKey
      in if truthy found then
           (let serverToClose = get_field found ''server'';
                st1 = st\<lparr>servers := (servers st)(pathKey := None),
                         journal := journal st @ [DeleteEntry pathKey]\<rparr>
            in case serverToClose of
                 Ref h \<Rightarrow>
                   (let st2 = st1\<lparr>heap := close_server (heap st1) h,
                                  journal := journal st1 @ [CloseCall h]\<rparr>
                    in (if closeCompletes e then Called [Null, Str path] else Pending, st2))
               | _ \<Rightarrow> (Threw ''TypeError'', st1))
         else (Called [Str path], st))"

text \<open>The servers that are listening, by reference.\<close>

definition listeners :: "state \<Rightarrow> nat list" where
  "listeners st =
     filter (\<lambda>h. case heap st h of None \<Rightarrow> False | Some s \<Rightarrow> listening s) [0..<nextRef st]"

section \<open>getServer, the call and the callback apart\<close>

text \<open>
  \<^verbatim>\<open>_cmdGetServer\<close> reads \<^verbatim>\<open>_servers\<close> when it is called, and on a miss the entry is stored
  by the callback it passes to \<^verbatim>\<open>_createServer\<close>. With no address that callback runs at
  once; otherwise it runs after \<^verbatim>\<open>listen\<close> and the GET of \<^verbatim>\<open>requestRoot\<close> have ended, and
  other commands can run in between. The definitions above take a command from its call to
  its callback in one step; those below take the two halves apart, so that commands can
  overlap.
\<close>









section \<open>Example inputs\<close>

text \<open>
  A host on a LAN: a loopback interface, and an interface with an IPv6 and an IPv4
  address; the operating system assigns port 49152, the GET of the root is answered.
\<close>

definition lan_env :: env where
  "lan_env =
     \<lparr>networkInterfaces =
        [(''lo'', [\<lparr>address = ''127.0.0.1'', family = ''IPv4'', internal = True\<rparr>]),
         (''en0'', [\<lparr>address = ''fe80::1'', family = ''IPv6'', internal = False\<rparr>,
                    \<lparr>address = ''192.168.1.10'', family = ''IPv4'', internal = False\<rparr>])],
      assignedPort = 49152, probe = ProbeResponse, closeCompletes = True\<rparr>"

text \<open>The same host with every adapter down: only the loopback interface is left.\<close>

definition offline_env :: env where
  "offline_env =
     \<lparr>networkInterfaces =
        [(''lo'', [\<lparr>address = ''127.0.0.1'', family = ''IPv4'', internal = True\<rparr>])],
      assignedPort = 49152, probe = ProbeResponse, closeCompletes = True\<rparr>"

text \<open>The LAN host when the GET of the root ends in an \<^verbatim>\<open>error\<close> event.\<close>

definition unready_env :: env where
  "unready_env = lan_env\<lparr>probe := ProbeError\<rparr>"

text \<open>The address object and the state after \<^verbatim>\<open>getServer("/a/b")\<close> on the LAN host.\<close>

definition lan_address :: jsval where
  "lan_address = Obj [(''address'', Str ''192.168.1.10''), (''port'', Num 49152)]"

definition lan_state :: state where
  "lan_state =
     \<lparr>servers = [''edge-code-inspect-/a/b'' \<mapsto>
                   Obj [(''server'', Ref 0), (''address'', lan_address)]],
      heap = [0 \<mapsto> \<lparr>stack = [RejectOffSubnet ''192.168.1.10'', Static ''/a/b'', Limit ''1mb''],
                     listening = True, port = 49152\<rparr>],
      nextRef = 1,
      journal = [ListenCall 0, ProbeCall ''192.168.1.10'' 49152,
                 StoreEntry ''edge-code-inspect-/a/b'']\<rparr>"











text \<open>A fresh response, and handlers in which the static stage answers every request.\<close>

definition fresh_response :: response where
  "fresh_response = \<lparr>statusCode = 200, ended = None\<rparr>"

definition serving_handlers :: "unit handlers" where
  "serving_handlers =
     \<lparr>serveStatic = (\<lambda>root req res. Some (res\<lparr>ended := Some ''file''\<rparr>)),
      limitBody = (\<lambda>bytes req res. Some (res\<lparr>statusCode := 413, ended := Some ''too large''\<rparr>))\<rparr>"

section \<open>Facts about the model\<close>

lemma getPathKey_not_builtin: "getPathKey p \<notin> set object_prototype_props"
  by (simp add: getPathKey_def PATH_KEY_PREFIX_def object_prototype_props_def)

lemma js_lookup_key:
  "js_lookup m (getPathKey p) = (case m (getPathKey p) of Some v \<Rightarrow> v | None \<Rightarrow> Undefined)"
  using getPathKey_not_builtin [of p] by (simp add: js_lookup_def split: option.splits)

lemma lan_env_addresses:
  "getExternalAddresses (networkInterfaces lan_env) = [''192.168.1.10'']"
  by (simp add: lan_env_def getExternalAddresses_def isExternal_def js_index_def)

lemma unready_env_addresses:
  "getExternalAddresses (networkInterfaces unready_env) = [''192.168.1.10'']"
  by (simp add: unready_env_def lan_env_addresses)

lemma offline_env_addresses: "getExternalAddresses (networkInterfaces offline_env) = []"
  by (simp add: offline_env_def getExternalAddresses_def isExternal_def)

lemma key_a_b: "getPathKey ''/a/b'' = ''edge-code-inspect-/a/b''"
  by (simp add: getPathKey_def normalizeRootPath_def PATH_KEY_PREFIX_def)


lemma cmdGetServer_miss:
  assumes "servers st (getPathKey P) = None"
  shows "cmdGetServer e P st =
     (case createServer e P st of
        (Called args, st1) \<Rightarrow>
          if truthy (arg args 0) then (Called [arg args 0, Null], st1)
          else (Called [Null, arg args 2],
                st1\<lparr>servers := (servers st1)(getPathKey P \<mapsto>
                       Obj [(''server'', arg args 1), (''address'', arg args 2)]),
                    journal := journal st1 @ [StoreEntry (getPathKey P)]\<rparr>)
      | (Pending, st1) \<Rightarrow> (Pending, st1)
      | (Threw x, st1) \<Rightarrow> (Threw x, st1))"
  using assms
  by (simp add: cmdGetServer_def js_lookup_key Let_def split: prod.splits completion.splits)

text \<open>The three ways \<^verbatim>\<open>_createServer\<close> calls back.\<close>

lemma createServer_no_address:
  assumes "getExternalAddresses (networkInterfaces e) = []"
  shows "createServer e P st =
     (Called [Str ''Could not find an external IP address'', Null, Null], st)"
  using assms by (simp add: createServer_def)

lemma createServer_probe_error:
  assumes "getExternalAddresses (networkInterfaces e) = host # rest" and "probe e = ProbeError"
  shows "createServer e P st =
     (Called [Str ''Could not GET root after launching server'', Null, Null],
      st\<lparr>heap := (heap st)(nextRef st \<mapsto>
               \<lparr>stack = [RejectOffSubnet host, Static P, Limit ''1mb''],
                listening = True, port = assignedPort e\<rparr>),
          nextRef := Suc (nextRef st),
          journal := journal st @ [ListenCall (nextRef st), ProbeCall host (assignedPort e)]\<rparr>)"
  using assms by (simp add: createServer_def Let_def connect_def app_use_def)

lemma createServer_probe_response:
  assumes "getExternalAddresses (networkInterfaces e) = host # rest"
    and "probe e = ProbeResponse"
  shows "createServer e P st =
     (Called [Null, Ref (nextRef st),
              Obj [(''address'', Str host), (''port'', Num (assignedPort e))]],
      st\<lparr>heap := (heap st)(nextRef st \<mapsto>
               \<lparr>stack = [RejectOffSubnet host, Static P, Limit ''1mb''],
                listening = True, port = assignedPort e\<rparr>),
          nextRef := Suc (nextRef st),
          journal := journal st @ [ListenCall (nextRef st), ProbeCall host (assignedPort e)]\<rparr>)"
  using assms by (simp add: createServer_def Let_def connect_def app_use_def)


text \<open>The address object of a server just created has two properties, no \<^verbatim>\<open>family\<close>.\<close>

lemma createServer_address_fields:
  assumes "createServer e P st = (Called [Null, srv, a], st1)"
  shows "\<exists>host. a = Obj [(''address'', Str host), (''port'', Num (assignedPort e))]"
    and "get_field a ''family'' = Undefined"
  using assms
  by (auto simp add: createServer_def Let_def split: list.splits probe_outcome.splits)

text \<open>
  The two branches of \<^verbatim>\<open>_cmdCloseServer\<close>. Without an entry the callback gets the path as
  its only argument and the state is unchanged. With an entry that holds a server, the
  entry is deleted, then \<^verbatim>\<open>close\<close> is called, and the callback, once the server has
  closed, gets \<^verbatim>\<open>null\<close> and the path.
\<close>

lemma cmdCloseServer_absent:
  assumes "servers st (getPathKey P) = None"
  shows "cmdCloseServer e P st = (Called [Str P], st)"
  using assms by (simp add: cmdCloseServer_def js_lookup_key)

lemma cmdCloseServer_present:
  assumes "servers st (getPathKey P) = Some (Obj [(''server'', Ref h), (''address'', a)])"
  shows "cmdCloseServer e P st =
     (if closeCompletes e then Called [Null, Str P] else Pending,
      st\<lparr>servers := (servers st)(getPathKey P := None),
          heap := close_server (heap st) h,
          journal := journal st @ [DeleteEntry (getPathKey P), CloseCall h]\<rparr>)"
  using assms by (simp add: cmdCloseServer_def js_lookup_key Let_def)

text \<open>\<^verbatim>\<open>split\<close> on the examples of its use in the code.\<close>

lemma js_split_examples:
  "js_split CHR ''.'' ''10.0.1.5'' = [''10'', ''0'', ''1'', ''5'']"
  "js_split CHR ''.'' ''::1'' = [''::1'']"
  "js_split CHR ''.'' [] = [[]]"
  by simp_all

lemma lan_first_call: "cmdGetServer lan_env ''/a/b'' init_state = (Called [Null, lan_address], lan_state)"
proof -
  have miss: "servers init_state (getPathKey ''/a/b'') = None"
    by (simp add: init_state_def)
  have "probe lan_env = ProbeResponse"
    by (simp add: lan_env_def)
  from createServer_probe_response [OF lan_env_addresses this]
  have created: "createServer lan_env ''/a/b'' init_state =
     (Called [Null, Ref 0, lan_address],
      init_state\<lparr>heap := [0 \<mapsto> \<lparr>stack = [RejectOffSubnet ''192.168.1.10'', Static ''/a/b'',
                                        Limit ''1mb''],
                               listening = True, port = 49152\<rparr>],
                 nextRef := 1,
                 journal := [ListenCall 0, ProbeCall ''192.168.1.10'' 49152]\<rparr>)"
    by (simp add: init_state_def lan_env_def lan_address_def)
  show ?thesis
    unfolding cmdGetServer_miss [OF miss] created
    by (simp add: arg_def key_a_b lan_state_def init_state_def)
qed











section \<open>Registry keys: prefix, injectivity, trailing slash\<close>

text \<open>
  Claim C10. For every path the registry key is the constant prefix
  \<^verbatim>\<open>"edge-code-inspect-"\<close> followed by the normalized path. So two paths have the same key
  exactly when their normalized paths are equal, every key starts with the prefix, and no
  key is the name of a member of \<^verbatim>\<open>Object.prototype\<close> (\<^verbatim>\<open>constructor\<close> and \<^verbatim>\<open>__proto__\<close>
  among them).
\<close>

theorem getPathKey_prefixed_injective_not_builtin:
  "getPathKey p = ''edge-code-inspect-'' @ normalizeRootPath p \<and>
   (getPathKey p = getPathKey q) = (normalizeRootPath p = normalizeRootPath q) \<and>
   take 18 (getPathKey p) = ''edge-code-inspect-'' \<and>
   getPathKey p \<notin> set object_prototype_props \<and>
   getPathKey p \<noteq> ''constructor'' \<and>
   getPathKey p \<noteq> ''__proto__''"
  by (simp add: getPathKey_def PATH_KEY_PREFIX_def object_prototype_props_def)

text \<open>
  Claim C7, as stated: any two paths that differ only by one trailing slash have the same
  key. It fails when the shorter path itself ends in a slash, since only one slash is cut:
  \<^verbatim>\<open>"/a/b//"\<close> and \<^verbatim>\<open>"/a/b/"\<close> differ by one trailing slash and get different keys.
\<close>

theorem getPathKey_double_slash_counterexample:
  "getPathKey ''/a/b//'' \<noteq> getPathKey ''/a/b/''"
  by (simp add: getPathKey_def normalizeRootPath_def)

text \<open>
  Claim C7, amended. For every path \<open>p\<close> that does not itself end in a slash, \<open>p\<close> and
  \<open>p\<close> followed by one slash have the same key, so \<^verbatim>\<open>_servers\<close> is read at the same
  property for both spellings.
\<close>

theorem getPathKey_trailing_slash:
  assumes "p = [] \<or> last p \<noteq> CHR ''/''"
  shows "getPathKey (p @ ''/'') = getPathKey p \<and>
         js_lookup (servers st) (getPathKey (p @ ''/'')) = js_lookup (servers st) (getPathKey p)"
proof -
  from assms have "normalizeRootPath (p @ ''/'') = normalizeRootPath p"
    by (auto simp add: normalizeRootPath_def)
  then have "getPathKey (p @ ''/'') = getPathKey p"
    by (simp add: getPathKey_def)
  then show ?thesis by simp
qed

theorem getPathKey_trailing_slash_witness:
  "(''/a/b'' = [] \<or> last ''/a/b'' \<noteq> CHR ''/'') \<and>
   getPathKey ''/a/b/'' = getPathKey ''/a/b'' \<and>
   js_lookup (servers lan_state) (getPathKey ''/a/b/'') =
     Obj [(''server'', Ref 0), (''address'', lan_address)]"
proof -
  have h: "''/a/b'' = [] \<or> last ''/a/b'' \<noteq> CHR ''/''" by simp
  have "js_lookup (servers lan_state) (getPathKey ''/a/b'') =
          Obj [(''server'', Ref 0), (''address'', lan_address)]"
    by (simp add: js_lookup_def key_a_b lan_state_def)
  with h getPathKey_trailing_slash [OF h, of lan_state] show ?thesis by simp
qed

section \<open>getServer\<close>




text \<open>
  Claim C5. If the enumeration of the addresses yields no qualifying address,
  \<^verbatim>\<open>getServer(P)\<close> leaves the registry as it is; and when the addresses are enumerated,
  that is when there is no entry under the key of \<open>P\<close>, the call ends with the error
  \<^verbatim>\<open>"Could not find an external IP address"\<close> and a \<^verbatim>\<open>null\<close> address, and the whole state
  is unchanged (no server was created).
\<close>

theorem cmdGetServer_no_address:
  assumes "getExternalAddresses (networkInterfaces e) = []"
  shows "servers (snd (cmdGetServer e P st)) = servers st \<and>
         (servers st (getPathKey P) = None \<longrightarrow>
            cmdGetServer e P st =
              (Called [Str ''Could not find an external IP address'', Null], st))"
  using assms
  by (auto simp add: cmdGetServer_def createServer_no_address js_lookup_key Let_def arg_def
      split: option.splits)

theorem cmdGetServer_no_address_witness:
  "getExternalAddresses (networkInterfaces offline_env) = [] \<and>
   servers init_state (getPathKey ''/a/b'') = None \<and>
   cmdGetServer offline_env ''/a/b'' init_state =
     (Called [Str ''Could not find an external IP address'', Null], init_state)"
proof -
  have miss: "servers init_state (getPathKey ''/a/b'') = None"
    by (simp add: init_state_def)
  with cmdGetServer_no_address [OF offline_env_addresses, of "''/a/b''" init_state]
       offline_env_addresses
  show ?thesis by simp
qed

text \<open>
  Claim C6, as stated: when the GET of the root fails, \<^verbatim>\<open>getServer(P)\<close> ends with an
  error, stores no entry, and closes the server it bound. The last part fails: on the LAN
  host with a failing probe the call ends with the error, and server 0 is still listening
  afterwards; \<^verbatim>\<open>close\<close> was never called on it.
\<close>

theorem cmdGetServer_probe_error_counterexample:
  "fst (cmdGetServer unready_env ''/a/b'' init_state) =
     Called [Str ''Could not GET root after launching server'', Null] \<and>
   listeners (snd (cmdGetServer unready_env ''/a/b'' init_state)) = [0] \<and>
   CloseCall 0 \<notin> set (journal (snd (cmdGetServer unready_env ''/a/b'' init_state)))"
proof -
  have miss: "servers init_state (getPathKey ''/a/b'') = None"
    by (simp add: init_state_def)
  have failing: "probe unready_env = ProbeError"
    by (simp add: unready_env_def)
  show ?thesis
    unfolding cmdGetServer_miss [OF miss]
      createServer_probe_error [OF unready_env_addresses failing]
    by (simp add: arg_def listeners_def init_state_def)
qed

text \<open>
  Claim C6, amended. When there is no entry under the key of \<open>P\<close>, an address is found
  and the GET of the root fails, \<^verbatim>\<open>getServer(P)\<close> ends with the error
  \<^verbatim>\<open>"Could not GET root after launching server"\<close> and a \<^verbatim>\<open>null\<close> address, and the registry
  is unchanged: no entry is stored. The server it created is not closed: it stays in the
  heap, listening, and the only effects of the call are the \<^verbatim>\<open>listen\<close> and the GET.
\<close>

theorem cmdGetServer_probe_error:
  assumes "getExternalAddresses (networkInterfaces e) = host # rest"
    and "probe e = ProbeError"
    and "servers st (getPathKey P) = None"
  shows "fst (cmdGetServer e P st) =
           Called [Str ''Could not GET root after launching server'', Null] \<and>
         servers (snd (cmdGetServer e P st)) = servers st \<and>
         heap (snd (cmdGetServer e P st)) (nextRef st) =
           Some \<lparr>stack = [RejectOffSubnet host, Static P, Limit ''1mb''],
                 listening = True, port = assignedPort e\<rparr> \<and>
         journal (snd (cmdGetServer e P st)) =
           journal st @ [ListenCall (nextRef st), ProbeCall host (assignedPort e)]"
  unfolding cmdGetServer_miss [OF assms(3)] createServer_probe_error [OF assms(1) assms(2)]
  by (simp add: arg_def)

theorem cmdGetServer_probe_error_witness:
  "getExternalAddresses (networkInterfaces unready_env) = [''192.168.1.10''] \<and>
   probe unready_env = ProbeError \<and>
   servers init_state (getPathKey ''/a/b'') = None \<and>
   fst (cmdGetServer unready_env ''/a/b'' init_state) =
     Called [Str ''Could not GET root after launching server'', Null] \<and>
   servers (snd (cmdGetServer unready_env ''/a/b'' init_state)) = Map.empty \<and>
   heap (snd (cmdGetServer unready_env ''/a/b'' init_state)) 0 =
     Some \<lparr>stack = [RejectOffSubnet ''192.168.1.10'', Static ''/a/b'', Limit ''1mb''],
           listening = True, port = 49152\<rparr>"
proof -
  have miss: "servers init_state (getPathKey ''/a/b'') = None"
    by (simp add: init_state_def)
  have failing: "probe unready_env = ProbeError"
    by (simp add: unready_env_def)
  have "assignedPort unready_env = 49152"
    by (simp add: unready_env_def lan_env_def)
  moreover have "nextRef init_state = 0" "servers init_state = Map.empty"
    by (simp_all add: init_state_def)
  ultimately show ?thesis
    using cmdGetServer_probe_error [OF unready_env_addresses failing miss]
      unready_env_addresses failing miss
    by simp
qed

section \<open>The subnet filter and the order of the pipeline\<close>

text \<open>
  Claim C1. For every server address \<open>S\<close> and every request, the filter calls
  \<^verbatim>\<open>next()\<close> exactly when the client address is there (not \<^verbatim>\<open>undefined\<close>, not empty) and
  each of its first three dot-separated pieces is equal to the piece of \<open>S\<close> at the same
  place (a missing piece is \<^verbatim>\<open>undefined\<close> and equal only to a missing piece). In every
  other case it sets status 403 and ends the response with \<^verbatim>\<open>"Forbidden"\<close>, and the stages
  behind it in a stack do not run; on admission the stages behind it decide.
\<close>

theorem rejectOffSubnetRequests_admits_iff:
  "(rejectOffSubnetRequests S req res = CallNext) =
     (\<exists>c. remoteAddress req = Some c \<and> c \<noteq> [] \<and>
          js_index (js_split CHR ''.'' c) 0 = js_index (js_split CHR ''.'' S) 0 \<and>
          js_index (js_split CHR ''.'' c) 1 = js_index (js_split CHR ''.'' S) 1 \<and>
          js_index (js_split CHR ''.'' c) 2 = js_index (js_split CHR ''.'' S) 2) \<and>
   (rejectOffSubnetRequests S req res \<noteq> CallNext \<longrightarrow>
      (\<exists>line. rejectOffSubnetRequests S req res =
         Rejected line (res\<lparr>statusCode := 403, ended := Some ''Forbidden''\<rparr>)) \<and>
      app_handle H (RejectOffSubnet S # ms) req res =
        ([RejectOffSubnet S], Some (res\<lparr>statusCode := 403, ended := Some ''Forbidden''\<rparr>))) \<and>
   (rejectOffSubnetRequests S req res = CallNext \<longrightarrow>
      app_handle H (RejectOffSubnet S # ms) req res =
        (RejectOffSubnet S # fst (app_handle H ms req res), snd (app_handle H ms req res)))"
proof (intro conjI impI)
  show "(rejectOffSubnetRequests S req res = CallNext) =
     (\<exists>c. remoteAddress req = Some c \<and> c \<noteq> [] \<and>
          js_index (js_split CHR ''.'' c) 0 = js_index (js_split CHR ''.'' S) 0 \<and>
          js_index (js_split CHR ''.'' c) 1 = js_index (js_split CHR ''.'' S) 1 \<and>
          js_index (js_split CHR ''.'' c) 2 = js_index (js_split CHR ''.'' S) 2)"
    by (cases "remoteAddress req") (simp_all add: rejectOffSubnetRequests_def Let_def)
next
  assume denied: "rejectOffSubnetRequests S req res \<noteq> CallNext"
  then show "\<exists>line. rejectOffSubnetRequests S req res =
      Rejected line (res\<lparr>statusCode := 403, ended := Some ''Forbidden''\<rparr>)"
    by (simp add: rejectOffSubnetRequests_def Let_def split: if_splits)
  then show "app_handle H (RejectOffSubnet S # ms) req res =
      ([RejectOffSubnet S], Some (res\<lparr>statusCode := 403, ended := Some ''Forbidden''\<rparr>))"
    by auto
next
  assume "rejectOffSubnetRequests S req res = CallNext"
  then show "app_handle H (RejectOffSubnet S # ms) req res =
      (RejectOffSubnet S # fst (app_handle H ms req res), snd (app_handle H ms req res))"
    by (simp split: prod.splits)
qed

theorem rejectOffSubnetRequests_admits_iff_witness:
  "rejectOffSubnetRequests ''10.0.1.5'' \<lparr>remoteAddress = Some ''10.0.1.42''\<rparr> fresh_response =
     CallNext \<and>
   app_handle serving_handlers [RejectOffSubnet ''10.0.1.5'', Static ''/a/b'']
       \<lparr>remoteAddress = Some ''10.0.1.42''\<rparr> fresh_response =
     ([RejectOffSubnet ''10.0.1.5'', Static ''/a/b''],
      Some \<lparr>statusCode = 200, ended = Some ''file''\<rparr>) \<and>
   rejectOffSubnetRequests ''10.0.1.5'' \<lparr>remoteAddress = Some ''10.0.2.42''\<rparr> fresh_response \<noteq>
     CallNext \<and>
   app_handle serving_handlers [RejectOffSubnet ''10.0.1.5'', Static ''/a/b'']
       \<lparr>remoteAddress = Some ''10.0.2.42''\<rparr> fresh_response =
     ([RejectOffSubnet ''10.0.1.5''], Some \<lparr>statusCode = 403, ended = Some ''Forbidden''\<rparr>) \<and>
   rejectOffSubnetRequests ''10.0.1.5'' \<lparr>remoteAddress = None\<rparr> fresh_response \<noteq> CallNext \<and>
   app_handle serving_handlers [RejectOffSubnet ''10.0.1.5'', Static ''/a/b'']
       \<lparr>remoteAddress = None\<rparr> fresh_response =
     ([RejectOffSubnet ''10.0.1.5''], Some \<lparr>statusCode = 403, ended = Some ''Forbidden''\<rparr>)"
proof -
  have near: "rejectOffSubnetRequests ''10.0.1.5'' \<lparr>remoteAddress = Some ''10.0.1.42''\<rparr>
      fresh_response = CallNext"
    by (simp add: rejectOffSubnetRequests_def js_index_def)
  have far: "rejectOffSubnetRequests ''10.0.1.5'' \<lparr>remoteAddress = Some ''10.0.2.42''\<rparr>
      fresh_response \<noteq> CallNext"
    by (simp add: rejectOffSubnetRequests_def js_index_def)
  have nobody: "rejectOffSubnetRequests ''10.0.1.5'' \<lparr>remoteAddress = None\<rparr>
      fresh_response \<noteq> CallNext"
    by (simp add: rejectOffSubnetRequests_def)
  have served: "app_handle serving_handlers [Static ''/a/b'']
      \<lparr>remoteAddress = Some ''10.0.1.42''\<rparr> fresh_response =
      ([Static ''/a/b''], Some \<lparr>statusCode = 200, ended = Some ''file''\<rparr>)"
    by (simp add: serving_handlers_def fresh_response_def)
  from near far nobody served
    rejectOffSubnetRequests_admits_iff
      [of "''10.0.1.5''" "\<lparr>remoteAddress = Some ''10.0.1.42''\<rparr>" fresh_response
          serving_handlers "[Static ''/a/b'']"]
    rejectOffSubnetRequests_admits_iff
      [of "''10.0.1.5''" "\<lparr>remoteAddress = Some ''10.0.2.42''\<rparr>" fresh_response
          serving_handlers "[Static ''/a/b'']"]
    rejectOffSubnetRequests_admits_iff
      [of "''10.0.1.5''" "\<lparr>remoteAddress = None\<rparr>" fresh_response
          serving_handlers "[Static ''/a/b'']"]
  show ?thesis
    by (simp add: fresh_response_def)
qed

text \<open>
  Claim C9, as stated: the stack of a created server is the subnet filter, then the 1 MB
  limit, then the static files, so the limit runs before the files are served. On the LAN
  host the stack of the server created for \<^verbatim>\<open>"/a/b"\<close> is not that one, and a request from
  the subnet that the static stage answers never reaches the limit.
\<close>

theorem createServer_stack_counterexample:
  "map_option stack (heap (snd (createServer lan_env ''/a/b'' init_state)) 0) \<noteq>
     Some [RejectOffSubnet ''192.168.1.10'', Limit ''1mb'', Static ''/a/b''] \<and>
   map_option
     (\<lambda>s. app_handle serving_handlers (stack s) \<lparr>remoteAddress = Some ''192.168.1.77''\<rparr>
            fresh_response)
     (heap (snd (createServer lan_env ''/a/b'' init_state)) 0) =
     Some ([RejectOffSubnet ''192.168.1.10'', Static ''/a/b''],
           Some \<lparr>statusCode = 200, ended = Some ''file''\<rparr>)"
proof -
  have responding: "probe lan_env = ProbeResponse"
    by (simp add: lan_env_def)
  have admitted: "rejectOffSubnetRequests ''192.168.1.10''
      \<lparr>remoteAddress = Some ''192.168.1.77''\<rparr> fresh_response = CallNext"
    by (simp add: rejectOffSubnetRequests_def js_index_def)
  show ?thesis
    unfolding createServer_probe_response [OF lan_env_addresses responding]
    by (simp add: init_state_def admitted [unfolded fresh_response_def] serving_handlers_def
        fresh_response_def)
qed

text \<open>
  Claim C9, amended. Whenever an address is found, the server \<^verbatim>\<open>_createServer\<close> creates
  has the stack: subnet filter for the first address found, then the static files rooted
  at the path, then the 1 MB limit. So for a request the filter admits, the static stage
  runs next, and the limit runs only when the static stage calls \<^verbatim>\<open>next()\<close>.
\<close>

theorem createServer_stack:
  assumes "getExternalAddresses (networkInterfaces e) = host # rest"
  shows "map_option stack (heap (snd (createServer e P st)) (nextRef st)) =
           Some [RejectOffSubnet host, Static P, Limit ''1mb''] \<and>
         (rejectOffSubnetRequests host req res = CallNext \<longrightarrow>
            app_handle H [RejectOffSubnet host, Static P, Limit ''1mb''] req res =
              (case serveStatic H P req res of
                 Some served \<Rightarrow> ([RejectOffSubnet host, Static P], Some served)
               | None \<Rightarrow> ([RejectOffSubnet host, Static P, Limit ''1mb''],
                          limitBody H ''1mb'' req res)))"
proof (intro conjI impI)
  show "map_option stack (heap (snd (createServer e P st)) (nextRef st)) =
      Some [RejectOffSubnet host, Static P, Limit ''1mb'']"
    using assms
    by (cases "probe e") (simp_all add: createServer_def Let_def connect_def app_use_def)
next
  assume "rejectOffSubnetRequests host req res = CallNext"
  then show "app_handle H [RejectOffSubnet host, Static P, Limit ''1mb''] req res =
      (case serveStatic H P req res of
         Some served \<Rightarrow> ([RejectOffSubnet host, Static P], Some served)
       | None \<Rightarrow> ([RejectOffSubnet host, Static P, Limit ''1mb''],
                  limitBody H ''1mb'' req res))"
    by (simp split: option.splits)
qed

theorem createServer_stack_witness:
  "getExternalAddresses (networkInterfaces lan_env) = [''192.168.1.10''] \<and>
   map_option stack (heap (snd (createServer lan_env ''/a/b'' init_state)) 0) =
     Some [RejectOffSubnet ''192.168.1.10'', Static ''/a/b'', Limit ''1mb''] \<and>
   rejectOffSubnetRequests ''192.168.1.10'' \<lparr>remoteAddress = Some ''192.168.1.77''\<rparr>
     fresh_response = CallNext \<and>
   app_handle serving_handlers [RejectOffSubnet ''192.168.1.10'', Static ''/a/b'', Limit ''1mb'']
       \<lparr>remoteAddress = Some ''192.168.1.77''\<rparr> fresh_response =
     ([RejectOffSubnet ''192.168.1.10'', Static ''/a/b''],
      Some \<lparr>statusCode = 200, ended = Some ''file''\<rparr>)"
proof -
  have admitted: "rejectOffSubnetRequests ''192.168.1.10''
      \<lparr>remoteAddress = Some ''192.168.1.77''\<rparr> fresh_response = CallNext"
    by (simp add: rejectOffSubnetRequests_def js_index_def)
  have first: "nextRef init_state = 0"
    by (simp add: init_state_def)
  have files: "serveStatic serving_handlers ''/a/b'' \<lparr>remoteAddress = Some ''192.168.1.77''\<rparr>
      fresh_response = Some \<lparr>statusCode = 200, ended = Some ''file''\<rparr>"
    by (simp add: serving_handlers_def fresh_response_def)
  from createServer_stack
         [OF lan_env_addresses, of "''/a/b''" init_state
            "\<lparr>remoteAddress = Some ''192.168.1.77''\<rparr>" fresh_response serving_handlers]
       admitted first files lan_env_addresses
  show ?thesis by simp
qed

section \<open>Where the code departs from its documentation\<close>

text \<open>
  Claim C2. The claim: an IPv4, non-internal address is left out only when it is in
  169.254.0.0/16, so 169.1.2.3 and 10.254.0.1 are candidates. The code tests
  \<^verbatim>\<open>octets[0] !== "169" && octets[1] !== "254"\<close>, which leaves out every address whose first
  piece is 169 and every address whose second piece is 254: of the four addresses below
  only the last is a candidate.
\<close>

theorem getExternalAddresses_drops_169_or_254:
  "getExternalAddresses
     [(''en0'', [\<lparr>address = ''169.1.2.3'', family = ''IPv4'', internal = False\<rparr>,
                 \<lparr>address = ''10.254.0.1'', family = ''IPv4'', internal = False\<rparr>,
                 \<lparr>address = ''169.254.7.7'', family = ''IPv4'', internal = False\<rparr>,
                 \<lparr>address = ''10.0.0.1'', family = ''IPv4'', internal = False\<rparr>])] =
     [''10.0.0.1''] \<and>
   getExternalAddresses
     [(''en0'', [\<lparr>address = ''10.254.0.1'', family = ''IPv4'', internal = False\<rparr>])] = []"
  by (simp add: getExternalAddresses_def isExternal_def js_index_def)

text \<open>
  Claim C4. The claim, and the doc comment of \<^verbatim>\<open>_cmdCloseServer\<close> and the registration of
  the command: the result is the boolean \<^verbatim>\<open>false\<close> when there is no server for the path
  and \<^verbatim>\<open>true\<close> when there is. The code calls back with the path as the only argument,
  which is the error argument, when there is no entry; and with \<^verbatim>\<open>null\<close> and the path
  when there is one. The rest of the claim holds: without an entry the state is unchanged,
  with one the entry is deleted and then \<^verbatim>\<open>close\<close> is called on its server.
\<close>

theorem cmdCloseServer_calls_back_with_path:
  "cmdCloseServer lan_env ''/never/requested'' init_state =
     (Called [Str ''/never/requested''], init_state) \<and>
   cmdCloseServer lan_env ''/a/b'' lan_state =
     (Called [Null, Str ''/a/b''],
      lan_state\<lparr>servers := Map.empty,
                heap := [0 \<mapsto> \<lparr>stack = [RejectOffSubnet ''192.168.1.10'', Static ''/a/b'',
                                       Limit ''1mb''],
                              listening = False, port = 49152\<rparr>],
                journal := journal lan_state @
                  [DeleteEntry ''edge-code-inspect-/a/b'', CloseCall 0]\<rparr>)"
proof -
  have absent: "js_lookup (servers init_state) (getPathKey ''/never/requested'') = Undefined"
    by (simp add: js_lookup_key init_state_def)
  have "cmdCloseServer lan_env ''/never/requested'' init_state =
      (Called [Str ''/never/requested''], init_state)"
    by (simp add: cmdCloseServer_def absent)
  moreover have "cmdCloseServer lan_env ''/a/b'' lan_state =
     (Called [Null, Str ''/a/b''],
      lan_state\<lparr>servers := Map.empty,
                heap := [0 \<mapsto> \<lparr>stack = [RejectOffSubnet ''192.168.1.10'', Static ''/a/b'',
                                       Limit ''1mb''],
                              listening = False, port = 49152\<rparr>],
                journal := journal lan_state @
                  [DeleteEntry ''edge-code-inspect-/a/b'', CloseCall 0]\<rparr>)"
    by (simp add: cmdCloseServer_def Let_def js_lookup_def key_a_b lan_state_def lan_env_def
        close_server_def)
  ultimately show ?thesis by simp
qed

text \<open>
  Claim C8. The claim, and the doc comment of \<^verbatim>\<open>_cmdGetServer\<close> and the registration of
  the command: the address delivered has a \<^verbatim>\<open>family\<close> property, \<^verbatim>\<open>"IPv4"\<close>. The object
  \<^verbatim>\<open>_createServer\<close> builds has the properties \<^verbatim>\<open>address\<close> and \<^verbatim>\<open>port\<close> only: reading
  \<^verbatim>\<open>family\<close> from the address delivered on the LAN host gives \<^verbatim>\<open>undefined\<close>.
\<close>

theorem cmdGetServer_address_without_family:
  "fst (cmdGetServer lan_env ''/a/b'' init_state) =
     Called [Null, Obj [(''address'', Str ''192.168.1.10''), (''port'', Num 49152)]] \<and>
   get_field (Obj [(''address'', Str ''192.168.1.10''), (''port'', Num 49152)]) ''family'' =
     Undefined \<and>
   get_field (arg [Null, Obj [(''address'', Str ''192.168.1.10''), (''port'', Num 49152)]] 1)
     ''family'' \<noteq> Str ''IPv4''"
  by (simp add: lan_first_call lan_address_def arg_def)

end
